theory Spec2Isabelle
  imports Complex_Main
begin

section \<open>The reward-signal factory\<close>

text \<open>
  \<^verbatim>\<open>reward_signal_factory.py\<close>. The three signal classes, their \<^verbatim>\<open>check_config\<close> and their
  constructors live in other modules; the factory only dispatches on them, so they are
  parameters of the model. A call that may raise returns a sum, \<open>Inl\<close> the exception. The
  factory returns its outcome together with the calls it made on the chosen class, in order.
\<close>

datatype rcls = ExtrinsicSignal | GAILSignal | CuriositySignal

datatype exn =
    UnityTrainerException string
  | TypeError string
  | OtherException string

datatype call = CheckConfig rcls | Construct rcls

definition NAME_TO_CLASS :: "string \<rightharpoonup> rcls" where
  "NAME_TO_CLASS =
     [''extrinsic'' \<mapsto> ExtrinsicSignal, ''gail'' \<mapsto> GAILSignal, ''curiosity'' \<mapsto> CuriositySignal]"

definition create_reward_signal ::
  "(rcls \<Rightarrow> 'cfg \<Rightarrow> exn option) \<Rightarrow> (rcls \<Rightarrow> 'pol \<Rightarrow> 'cfg \<Rightarrow> exn + 'inst) \<Rightarrow>
   'pol \<Rightarrow> string \<Rightarrow> 'cfg \<Rightarrow> (exn + 'inst) \<times> call list" where
  "create_reward_signal check_config rcls_new policy name config_entry =
     (case NAME_TO_CLASS name of
        None \<Rightarrow> (Inl (UnityTrainerException (''Unknown reward signal type '' @ name)), [])
      | Some rcls \<Rightarrow>
          (case check_config rcls config_entry of
             Some e \<Rightarrow> (Inl e, [CheckConfig rcls])
           | None \<Rightarrow>
               (case rcls_new rcls policy config_entry of
                  Inl (TypeError msg) \<Rightarrow>
                    (Inl (UnityTrainerException
                            (''Unknown parameters given for reward signal '' @ name)),
                     [CheckConfig rcls, Construct rcls])
                | Inl e \<Rightarrow> (Inl e, [CheckConfig rcls, Construct rcls])
                | Inr class_inst \<Rightarrow> (Inr class_inst, [CheckConfig rcls, Construct rcls]))))"

section \<open>Tensors and the TensorFlow primitives the loss graph uses\<close>

text \<open>
  A tensor is denoted by its value in one run of the graph: a rank-1 tensor of shape
  \<open>[batch]\<close> is a list of reals, a rank-2 tensor of shape \<open>[batch, k]\<close> a list of rows.
  Entries are real numbers: rounding and overflow of 32-bit floats are outside the model.
  A quotient \<open>0 / 0\<close>, which TensorFlow evaluates to NaN, is the value \<open>None\<close>.
  Elementwise operations pair entries by position; TensorFlow rejects operands of
  different shapes when the graph runs, so the theorems assume consistent shapes.
\<close>

type_synonym tensor1 = "real list"
type_synonym tensor2 = "real list list"

definition tf_sub :: "tensor1 \<Rightarrow> tensor1 \<Rightarrow> tensor1" where
  "tf_sub x y = map2 (-) x y"

definition tf_add :: "tensor1 \<Rightarrow> tensor1 \<Rightarrow> tensor1" where
  "tf_add x y = map2 (+) x y"

text \<open>
  \<^verbatim>\<open>tf.clip_by_value\<close> takes the minimum with the upper bound first and then the maximum
  with the lower bound.
\<close>

definition tf_clip_by_value :: "tensor1 \<Rightarrow> real \<Rightarrow> real \<Rightarrow> tensor1" where
  "tf_clip_by_value t clip_value_min clip_value_max =
     map (\<lambda>v. max (min v clip_value_max) clip_value_min) t"

definition tf_squared_difference :: "tensor1 \<Rightarrow> tensor1 \<Rightarrow> tensor1" where
  "tf_squared_difference x y = map2 (\<lambda>a b. (a - b) * (a - b)) x y"

definition tf_maximum :: "tensor1 \<Rightarrow> tensor1 \<Rightarrow> tensor1" where
  "tf_maximum x y = map2 max x y"

definition tf_reduce_sum_axis1 :: "tensor2 \<Rightarrow> tensor1" where
  "tf_reduce_sum_axis1 t = map sum_list t"

definition tf_sub2 :: "tensor2 \<Rightarrow> tensor2 \<Rightarrow> tensor2" where
  "tf_sub2 x y = map2 (map2 (-)) x y"

definition tf_exp2 :: "tensor2 \<Rightarrow> tensor2" where
  "tf_exp2 t = map (map exp) t"

definition tf_clip_by_value2 :: "tensor2 \<Rightarrow> real \<Rightarrow> real \<Rightarrow> tensor2" where
  "tf_clip_by_value2 t clip_value_min clip_value_max =
     map (map (\<lambda>v. max (min v clip_value_max) clip_value_min)) t"

definition tf_minimum2 :: "tensor2 \<Rightarrow> tensor2 \<Rightarrow> tensor2" where
  "tf_minimum2 x y = map2 (map2 min) x y"

text \<open>
  The product of a \<open>[batch, k]\<close> tensor with the \<open>[batch, 1]\<close> advantages placeholder
  broadcasts the single entry of each advantage row over the row of the other operand. The
  placeholder's declared shape fixes one entry per row, so its value is kept as the list of
  these entries.
\<close>

definition tf_mul_column :: "tensor2 \<Rightarrow> real list \<Rightarrow> tensor2" where
  "tf_mul_column t column = map2 (\<lambda>row a. map (\<lambda>v. v * a) row) t column"

text \<open>
  \<^verbatim>\<open>tf.dynamic_partition(data, partitions, num)\<close>: output \<open>p\<close> holds, in order, the
  entries (rows, for a rank-2 tensor) of \<open>data\<close> whose partition index is \<open>p\<close>. TensorFlow
  rejects an index outside \<open>[0, num)\<close>; the theorems assume a mask of zeros and ones.
\<close>

definition tf_dynamic_partition :: "'a list \<Rightarrow> int list \<Rightarrow> nat \<Rightarrow> 'a list list" where
  "tf_dynamic_partition data partitions num_partitions =
     map (\<lambda>p. map fst (filter (\<lambda>(d, q). q = int p) (zip data partitions))) [0..<num_partitions]"

text \<open>\<^verbatim>\<open>tf.reduce_mean\<close> over all entries; the mean of no entries is NaN.\<close>

definition tf_reduce_mean :: "tensor1 \<Rightarrow> real option" where
  "tf_reduce_mean t = (if t = [] then None else Some (sum_list t / real (length t)))"

definition tf_reduce_mean2 :: "tensor2 \<Rightarrow> real option" where
  "tf_reduce_mean2 t = tf_reduce_mean (concat t)"

text \<open>
  \<^verbatim>\<open>tf.train.polynomial_decay\<close> with \<^verbatim>\<open>cycle=False\<close>: the step is capped at
  \<open>decay_steps\<close>, and the rate is
  \<open>(learning_rate - end_learning_rate) * (1 - step / decay_steps) ^ power + end_learning_rate\<close>.
  With \<open>decay_steps = 0\<close> the quotient is \<open>0 / 0\<close>. The source passes \<^verbatim>\<open>power=1.0\<close>; the
  exponent is a natural number here.
\<close>

definition tf_polynomial_decay :: "real \<Rightarrow> int \<Rightarrow> real \<Rightarrow> real \<Rightarrow> nat \<Rightarrow> real option" where
  "tf_polynomial_decay learning_rate global_step decay_steps end_learning_rate exponent =
     (if decay_steps = 0 then None
      else Some ((learning_rate - end_learning_rate)
                   * (1 - min (real_of_int global_step) decay_steps / decay_steps) ^ exponent
                 + end_learning_rate))"

text \<open>
  \<^verbatim>\<open>tf.reduce_mean\<close> of a Python list of scalar tensors: the list is packed into one
  rank-1 tensor first, and a NaN entry makes the mean NaN.
\<close>

definition tf_reduce_mean_scalars :: "real option list \<Rightarrow> real option" where
  "tf_reduce_mean_scalars ts =
     (if list_all (\<lambda>v. v \<noteq> None) ts then tf_reduce_mean (map the ts) else None)"

section \<open>The PPO model\<close>

text \<open>
  \<^verbatim>\<open>ppo/models.py\<close>. The attributes \<^verbatim>\<open>LearningModel\<close> provides, each tensor by its value in
  the run: the global step counter, the 0/1 mask, the log-probabilities of the current and
  the old policy, the dictionary of value heads (an association list in insertion order,
  looked up by key), the combined value estimate and the entropy.
\<close>

record learning_model =
  global_step :: int
  mask :: "int list"
  log_probs :: tensor2
  old_log_probs :: tensor2
  value_heads :: "(string \<times> tensor2) list"
  "value" :: tensor2
  entropy :: tensor1

text \<open>
  The values fed to the placeholders \<^verbatim>\<open>create_losses\<close> creates: to the \<open>i\<close>-th returns
  holder, to the \<open>i\<close>-th old value estimate, and to the advantages (one entry per row).
\<close>

record feed =
  fed_returns :: "nat \<Rightarrow> tensor1"
  fed_old_values :: "nat \<Rightarrow> tensor1"
  fed_advantage :: "real list"

datatype error = IndexError | KeyError string | ValueError string

text \<open>
  What \<^verbatim>\<open>create_losses\<close> sets on the model. A placeholder is recorded by the name
  requested for it (TensorFlow appends a numeric suffix to a name the graph already uses);
  \<open>value_losses\<close> is the local list of per-stream losses.
\<close>

record ppo_losses =
  returns_holders :: "string list"
  old_values :: "string list"
  advantage :: string
  learning_rate :: "real option"
  value_losses :: "real option list"
  value_loss :: "real option"
  policy_loss :: "real option"
  loss :: "real option"

text \<open>Lines 78 to 83: the three schedules.\<close>

definition learning_rate_decay :: "real \<Rightarrow> int \<Rightarrow> real \<Rightarrow> real option" where
  "learning_rate_decay lr step max_step = tf_polynomial_decay lr step max_step (1 / 10 ^ 10) 1"

definition decay_epsilon :: "real \<Rightarrow> int \<Rightarrow> real \<Rightarrow> real option" where
  "decay_epsilon epsilon step max_step = tf_polynomial_decay epsilon step max_step (1 / 10) 1"

definition decay_beta :: "real \<Rightarrow> int \<Rightarrow> real \<Rightarrow> real option" where
  "decay_beta beta step max_step = tf_polynomial_decay beta step max_step (1 / 10 ^ 5) 1"

text \<open>
  \<^verbatim>\<open>tf.placeholder\<close> raises ValueError for a name that is not an op name. At the root
  of the graph's name scopes, where the model is built, TensorFlow 1.x accepts the names
  that match \<^verbatim>\<open>[A-Za-z0-9.][A-Za-z0-9_.\\-/]*\<close>.
\<close>

definition tf_alnum :: "char \<Rightarrow> bool" where
  "tf_alnum c =
     (let n = (of_char c :: nat)
      in (48 \<le> n \<and> n \<le> 57) \<or> (65 \<le> n \<and> n \<le> 90) \<or> (97 \<le> n \<and> n \<le> 122))"

definition tf_valid_op_name :: "string \<Rightarrow> bool" where
  "tf_valid_op_name name =
     (case name of
        [] \<Rightarrow> False
      | c # cs \<Rightarrow>
          (tf_alnum c \<or> c = CHR ''.'') \<and>
          list_all (\<lambda>d. tf_alnum d \<or> d \<in> set ''_.-/'') cs)"

text \<open>
  Lines 70 to 76: one pair of placeholders per index below \<^verbatim>\<open>len(value_streams)\<close>;
  \<^verbatim>\<open>stream_names[i]\<close> raises IndexError past the end of the list, and each of the two
  placeholders raises ValueError when TensorFlow rejects its name.
\<close>

fun create_placeholders ::
  "string list \<Rightarrow> nat list \<Rightarrow> string list \<times> string list \<Rightarrow> error + string list \<times> string list" where
  "create_placeholders stream_names [] (rh, ov) = Inr (rh, ov)"
| "create_placeholders stream_names (i # rest) (rh, ov) =
     (if \<not> i < length stream_names then Inl IndexError
      else if \<not> tf_valid_op_name (stream_names ! i @ ''_returns'')
      then Inl (ValueError (stream_names ! i @ ''_returns''))
      else if \<not> tf_valid_op_name (stream_names ! i @ ''_value_estimate'')
      then Inl (ValueError (stream_names ! i @ ''_value_estimate''))
      else create_placeholders stream_names rest
             (rh @ [stream_names ! i @ ''_returns''], ov @ [stream_names ! i @ ''_value_estimate'']))"

text \<open>Lines 87 to 94: the body of the loop over the stream names.\<close>

definition clipped_value_estimate :: "tensor1 \<Rightarrow> tensor2 \<Rightarrow> real \<Rightarrow> tensor1" where
  "clipped_value_estimate old_value value_stream eps =
     tf_add old_value
       (tf_clip_by_value (tf_sub (tf_reduce_sum_axis1 value_stream) old_value) (- eps) eps)"

definition stream_value_loss ::
  "int list \<Rightarrow> tensor1 \<Rightarrow> tensor1 \<Rightarrow> tensor2 \<Rightarrow> real \<Rightarrow> real option" where
  "stream_value_loss msk returns_holder old_value value_stream eps =
     (let v_opt_a = tf_squared_difference returns_holder (tf_reduce_sum_axis1 value_stream);
          v_opt_b = tf_squared_difference returns_holder
                      (clipped_value_estimate old_value value_stream eps)
      in tf_reduce_mean (tf_dynamic_partition (tf_maximum v_opt_a v_opt_b) msk 2 ! 1))"

text \<open>
  The loop itself, over \<^verbatim>\<open>enumerate(stream_names)\<close>: \<^verbatim>\<open>self.old_values[i]\<close> is read first
  and raises IndexError when fewer placeholders were created, then \<^verbatim>\<open>value_streams[name]\<close>
  raises KeyError for a name that is not a key.
\<close>

fun create_value_losses ::
  "int list \<Rightarrow> feed \<Rightarrow> (string \<times> tensor2) list \<Rightarrow> string list \<Rightarrow> real option \<Rightarrow>
   (nat \<times> string) list \<Rightarrow> real option list \<Rightarrow> error + real option list" where
  "create_value_losses msk fd value_streams ov eps [] acc = Inr acc"
| "create_value_losses msk fd value_streams ov eps ((i, name) # rest) acc =
     (if \<not> i < length ov then Inl IndexError
      else case map_of value_streams name of
             None \<Rightarrow> Inl (KeyError name)
           | Some value_stream \<Rightarrow>
               create_value_losses msk fd value_streams ov eps rest
                 (acc @ [Option.bind eps
                           (stream_value_loss msk (fed_returns fd i) (fed_old_values fd i)
                              value_stream)]))"

text \<open>Lines 98 to 106: the clipped surrogate policy loss.\<close>

definition policy_loss_op ::
  "int list \<Rightarrow> tensor2 \<Rightarrow> tensor2 \<Rightarrow> real list \<Rightarrow> real \<Rightarrow> real option" where
  "policy_loss_op msk probs old_probs adv eps =
     (let r_theta = tf_exp2 (tf_sub2 probs old_probs);
          p_opt_a = tf_mul_column r_theta adv;
          p_opt_b = tf_mul_column (tf_clip_by_value2 r_theta (1 - eps) (1 + eps)) adv
      in map_option uminus
           (tf_reduce_mean2 (tf_dynamic_partition (tf_minimum2 p_opt_a p_opt_b) msk 2 ! 1)))"

text \<open>Lines 108 to 113: the total loss; a NaN operand makes it NaN.\<close>

definition loss_op ::
  "real option \<Rightarrow> real option \<Rightarrow> real option \<Rightarrow> real option \<Rightarrow> real option" where
  "loss_op p_loss v_loss beta_t mean_entropy =
     (case (p_loss, v_loss, beta_t, mean_entropy) of
        (Some p, Some v, Some b, Some e) \<Rightarrow> Some (p + 0.5 * v - b * e)
      | _ \<Rightarrow> None)"

text \<open>
  \<^verbatim>\<open>create_losses\<close>, with the values fed to its placeholders as the argument \<open>fd\<close>. It
  fails as the two loops fail. With \<open>max_step = 0\<close> the clip radius is not a number, and
  neither is a loss that uses it.
\<close>

definition create_losses ::
  "learning_model \<Rightarrow> feed \<Rightarrow> tensor2 \<Rightarrow> tensor2 \<Rightarrow> (string \<times> tensor2) list \<Rightarrow> tensor1 \<Rightarrow>
   real \<Rightarrow> real \<Rightarrow> real \<Rightarrow> real \<Rightarrow> string list \<Rightarrow> error + ppo_losses" where
  "create_losses self fd probs old_probs value_streams entr beta epsilon lr max_step stream_names =
     (case create_placeholders stream_names [0..<length value_streams] ([], []) of
        Inl e \<Rightarrow> Inl e
      | Inr (rh, ov) \<Rightarrow>
          (let eps_t = decay_epsilon epsilon (global_step self) max_step;
               beta_t = decay_beta beta (global_step self) max_step
           in case create_value_losses (mask self) fd value_streams ov eps_t
                     (enumerate 0 stream_names) [] of
                Inl e \<Rightarrow> Inl e
              | Inr vls \<Rightarrow>
                  (let v_loss = tf_reduce_mean_scalars vls;
                       p_loss = Option.bind eps_t
                                  (policy_loss_op (mask self) probs old_probs (fed_advantage fd))
                   in Inr \<lparr>returns_holders = rh,
                           old_values = ov,
                           advantage = ''advantages'',
                           learning_rate = learning_rate_decay lr (global_step self) max_step,
                           value_losses = vls,
                           value_loss = v_loss,
                           policy_loss = p_loss,
                           loss = loss_op p_loss v_loss beta_t
                                    (tf_reduce_mean
                                       (tf_dynamic_partition entr (mask self) 2 ! 1))\<rparr>)))"

text \<open>
  \<^verbatim>\<open>PPOModel.__init__\<close>. \<^verbatim>\<open>LearningModel.__init__\<close> and the two actor-critic builders
  belong to the base class and are parameters. A scalar tensor is a one-entry list, which
  the product broadcasts.
\<close>

record brain_parameters =
  vector_action_space_type :: string

definition tf_reshape_flat :: "tensor2 \<Rightarrow> tensor1" where
  "tf_reshape_flat t = concat t"

definition tf_ones_like :: "tensor1 \<Rightarrow> tensor1" where
  "tf_ones_like t = map (\<lambda>v. 1) t"

definition tf_mul :: "tensor1 \<Rightarrow> tensor1 \<Rightarrow> tensor1" where
  "tf_mul x y =
     (if length y = 1 then map (\<lambda>v. v * hd y) x
      else if length x = 1 then map (\<lambda>v. hd x * v) y
      else map2 (*) x y)"

text \<open>
  \<^verbatim>\<open>create_reward_encoder\<close>: the variable's initial value, the placeholder's name, and the
  assignment, which stores the fed reward.
\<close>

definition create_reward_encoder :: "real \<times> string \<times> (real \<Rightarrow> real)" where
  "create_reward_encoder = (0, ''new_reward'', (\<lambda>new_reward. new_reward))"

record ppo_model =
  base :: learning_model
  last_reward :: real
  new_reward :: string
  update_reward :: "real \<Rightarrow> real"
  losses :: ppo_losses

text \<open>Lines 37 to 41: the heads for the action space.\<close>

definition create_actor_critic ::
  "(learning_model \<Rightarrow> nat \<Rightarrow> int \<Rightarrow> learning_model) \<Rightarrow>
   (learning_model \<Rightarrow> nat \<Rightarrow> int \<Rightarrow> learning_model) \<Rightarrow>
   'z brain_parameters_scheme \<Rightarrow> learning_model \<Rightarrow> nat \<Rightarrow> int \<Rightarrow> learning_model" where
  "create_actor_critic create_cc_actor_critic create_dc_actor_critic brain self h_size num_layers =
     (if vector_action_space_type brain = ''continuous''
      then (let s = create_cc_actor_critic self h_size num_layers
            in s\<lparr>entropy := tf_mul (tf_ones_like (tf_reshape_flat (value s))) (entropy s)\<rparr>)
      else create_dc_actor_critic self h_size num_layers)"

definition PPOModel_init ::
  "('m \<Rightarrow> bool \<Rightarrow> bool \<Rightarrow> 'z brain_parameters_scheme \<Rightarrow> 's \<Rightarrow> string list \<Rightarrow> learning_model) \<Rightarrow>
   (learning_model \<Rightarrow> nat \<Rightarrow> int \<Rightarrow> learning_model) \<Rightarrow>
   (learning_model \<Rightarrow> nat \<Rightarrow> int \<Rightarrow> learning_model) \<Rightarrow>
   feed \<Rightarrow> 'z brain_parameters_scheme \<Rightarrow> real \<Rightarrow> nat \<Rightarrow> real \<Rightarrow> real \<Rightarrow> real \<Rightarrow> bool \<Rightarrow> bool \<Rightarrow>
   int \<Rightarrow> 'm \<Rightarrow> 's \<Rightarrow> string list option \<Rightarrow> error + ppo_model" where
  "PPOModel_init LearningModel_init create_cc_actor_critic create_dc_actor_critic fd
     brain lr h_size epsilon beta max_step normalise use_recurrent num_layers m_size seed
     stream_names =
     (let stream_names = (case stream_names of None \<Rightarrow> [] | Some names \<Rightarrow> names);
          self = LearningModel_init m_size normalise use_recurrent brain seed stream_names;
          num_layers = (if num_layers < 1 then 1 else num_layers);
          (last_r, new_r, update_r) = create_reward_encoder;
          self = create_actor_critic create_cc_actor_critic create_dc_actor_critic brain self
                   h_size num_layers
      in case create_losses self fd (log_probs self) (old_log_probs self) (value_heads self)
                (entropy self) beta epsilon lr max_step stream_names of
           Inl e \<Rightarrow> Inl e
         | Inr l \<Rightarrow>
             Inr \<lparr>base = self, last_reward = last_r, new_reward = new_r,
                  update_reward = update_r, losses = l\<rparr>)"

section \<open>The losses as the specification words them\<close>

text \<open>
  The formulas of the specification, over timesteps: the valid timesteps are the indices
  where the mask is 1, and a masked mean is the sum over them divided by their number.
\<close>

definition valid_timesteps :: "int list \<Rightarrow> nat set" where
  "valid_timesteps msk = set (filter (\<lambda>t. msk ! t = 1) [0..<length msk])"

definition masked_mean :: "(nat \<Rightarrow> real) \<Rightarrow> int list \<Rightarrow> real" where
  "masked_mean f msk = (\<Sum>t\<in>valid_timesteps msk. f t) / real (card (valid_timesteps msk))"

definition spec_clip :: "real \<Rightarrow> real \<Rightarrow> real \<Rightarrow> real" where
  "spec_clip v lo hi = max lo (min hi v)"

definition spec_ratio :: "real \<Rightarrow> real \<Rightarrow> real" where
  "spec_ratio current_log_prob old_log_prob = exp (current_log_prob - old_log_prob)"

definition spec_surrogate :: "real \<Rightarrow> real \<Rightarrow> real \<Rightarrow> real \<Rightarrow> real" where
  "spec_surrogate eps current_log_prob old_log_prob adv =
     min (spec_ratio current_log_prob old_log_prob * adv)
         (spec_clip (spec_ratio current_log_prob old_log_prob) (1 - eps) (1 + eps) * adv)"

text \<open>
  With \<open>k\<close> log-probabilities per timestep the mean runs over all \<open>k\<close> entries of every
  valid timestep; for \<open>k = 1\<close> it is the masked mean of the one surrogate per timestep.
\<close>

definition spec_policy_loss ::
  "real \<Rightarrow> tensor2 \<Rightarrow> tensor2 \<Rightarrow> real list \<Rightarrow> int list \<Rightarrow> nat \<Rightarrow> real" where
  "spec_policy_loss eps probs old_probs adv msk k =
     - masked_mean
         (\<lambda>t. (\<Sum>j<k. spec_surrogate eps (probs ! t ! j) (old_probs ! t ! j) (adv ! t)) / real k)
         msk"

definition spec_clipped_value :: "real \<Rightarrow> real \<Rightarrow> real \<Rightarrow> real" where
  "spec_clipped_value eps v v_old = v_old + spec_clip (v - v_old) (- eps) eps"

text \<open>The estimate \<open>V\<close> of a stream at a timestep is the sum of its head's row.\<close>

definition spec_stream_value_loss ::
  "real \<Rightarrow> tensor1 \<Rightarrow> tensor2 \<Rightarrow> tensor1 \<Rightarrow> int list \<Rightarrow> real" where
  "spec_stream_value_loss eps returns value_stream v_old msk =
     masked_mean
       (\<lambda>t. max ((returns ! t - sum_list (value_stream ! t)) ^ 2)
                 ((returns ! t
                    - spec_clipped_value eps (sum_list (value_stream ! t)) (v_old ! t)) ^ 2))
       msk"

definition spec_value_loss :: "real list \<Rightarrow> real" where
  "spec_value_loss stream_losses = sum_list stream_losses / real (length stream_losses)"

definition spec_total_loss :: "real \<Rightarrow> real \<Rightarrow> real \<Rightarrow> tensor1 \<Rightarrow> int list \<Rightarrow> real" where
  "spec_total_loss p_loss v_loss beta_t entr msk =
     p_loss + 0.5 * v_loss - beta_t * masked_mean (\<lambda>t. entr ! t) msk"

text \<open>
  A schedule decays linearly to its floor: it starts at the initial value, interpolates
  linearly up to \<open>max_step\<close>, is the floor at \<open>max_step\<close>, and, when the floor is not above
  the initial value, never increases and never goes below the floor.
\<close>

definition decays_linearly_to_floor ::
  "(int \<Rightarrow> real option) \<Rightarrow> real \<Rightarrow> real \<Rightarrow> real \<Rightarrow> bool" where
  "decays_linearly_to_floor sched init floor_v max_step \<longleftrightarrow>
     sched 0 = Some init \<and>
     (\<forall>step. 0 \<le> step \<and> real_of_int step \<le> max_step \<longrightarrow>
        sched step = Some (init + (floor_v - init) * (real_of_int step / max_step))) \<and>
     (\<forall>step. real_of_int step = max_step \<longrightarrow> sched step = Some floor_v) \<and>
     (floor_v \<le> init \<longrightarrow>
        (\<forall>step step'. step \<le> step' \<longrightarrow>
           (\<exists>v w. sched step = Some v \<and> sched step' = Some w \<and> w \<le> v))) \<and>
     (floor_v \<le> init \<longrightarrow> (\<forall>step. \<exists>v. sched step = Some v \<and> floor_v \<le> v))"


text \<open>
  Two batches agree on the valid timesteps of a mask when both have the mask's length and
  equal entries wherever the mask is 1; elsewhere they are unrelated.
\<close>

definition agree_on_valid :: "int list \<Rightarrow> 'a list \<Rightarrow> 'a list \<Rightarrow> bool" where
  "agree_on_valid msk a b \<longleftrightarrow>
     length a = length msk \<and> length b = length msk \<and>
     (\<forall>t<length msk. msk ! t = 1 \<longrightarrow> a ! t = b ! t)"

section \<open>A sample run\<close>

text \<open>
  The scenario of the specification: two value streams named \<open>extrinsic\<close> and \<open>curiosity\<close>
  and a batch of two timesteps, the second masked out. The second batch differs from the
  first at the masked timestep only.
\<close>

definition sample_model :: learning_model where
  "sample_model = \<lparr>global_step = 0, mask = [1, 0], log_probs = [[0], [1]],
     old_log_probs = [[0], [0]],
     value_heads = [(''extrinsic'', [[1], [2]]), (''curiosity'', [[0], [5]])],
     value = [[1 / 2], [7 / 2]], entropy = [1, 1]\<rparr>"

definition sample_feed :: feed where
  "sample_feed = \<lparr>fed_returns = (\<lambda>i. if i = 0 then [3, 1] else [1, 1]),
     fed_old_values = (\<lambda>i. [0, 0]), fed_advantage = [2, 3]\<rparr>"

definition sample_losses :: "error + ppo_losses" where
  "sample_losses =
     create_losses sample_model sample_feed (log_probs sample_model) (old_log_probs sample_model)
       (value_heads sample_model) (entropy sample_model) (1 / 1000) (1 / 5) (1 / 10000) 5000000
       [''extrinsic'', ''curiosity'']"

definition sample_model_alt :: learning_model where
  "sample_model_alt = \<lparr>global_step = 0, mask = [1, 0], log_probs = [[0], [4]],
     old_log_probs = [[0], [- 1]],
     value_heads = [(''extrinsic'', [[1], [9]]), (''curiosity'', [[0], [- 3]])],
     value = [[1 / 2], [3]], entropy = [1, 7]\<rparr>"

definition sample_feed_alt :: feed where
  "sample_feed_alt = \<lparr>fed_returns = (\<lambda>i. if i = 0 then [3, 8] else [1, 0]),
     fed_old_values = (\<lambda>i. [0, 6]), fed_advantage = [2, - 5]\<rparr>"

definition sample_losses_alt :: "error + ppo_losses" where
  "sample_losses_alt =
     create_losses sample_model_alt sample_feed_alt (log_probs sample_model_alt) (old_log_probs sample_model_alt)
       (value_heads sample_model_alt) (entropy sample_model_alt) (1 / 1000) (1 / 5) (1 / 10000) 5000000
       [''extrinsic'', ''curiosity'']"

definition sample_brain :: brain_parameters where
  "sample_brain = \<lparr>vector_action_space_type = ''continuous''\<rparr>"

definition sample_LearningModel_init ::
  "unit \<Rightarrow> bool \<Rightarrow> bool \<Rightarrow> brain_parameters \<Rightarrow> nat \<Rightarrow> string list \<Rightarrow> learning_model" where
  "sample_LearningModel_init m_size normalise use_recurrent brain seed stream_names =
     \<lparr>global_step = 0, mask = [1, 0], log_probs = [[0], [1]], old_log_probs = [[0], [0]],
      value_heads = map (\<lambda>name. (name, [[1], [2]])) stream_names,
      value = [[1], [2]], entropy = [1]\<rparr>"

definition sample_init :: "string list option \<Rightarrow> error + ppo_model" where
  "sample_init stream_names =
     PPOModel_init sample_LearningModel_init (\<lambda>self h_size num_layers. self)
       (\<lambda>self h_size num_layers. self) sample_feed sample_brain (1 / 10000) 128 (1 / 5)
       (1 / 1000) 5000000 False False 2 () 0 stream_names"

section \<open>The factory: unknown names and constructor mismatches\<close>

lemma NAME_TO_CLASS_None:
  "name \<notin> {''extrinsic'', ''curiosity'', ''gail''} \<Longrightarrow> NAME_TO_CLASS name = None"
  by (simp add: NAME_TO_CLASS_def)

text \<open>
  C8. A name outside the registry \<open>{extrinsic, curiosity, gail}\<close> makes the factory fail
  with the "Unknown reward signal type" error carrying the name, and the factory has called
  neither \<^verbatim>\<open>check_config\<close> nor a constructor.
\<close>

theorem unknown_name_fails:
  "name \<notin> {''extrinsic'', ''curiosity'', ''gail''} \<Longrightarrow>
   create_reward_signal check_config rcls_new policy name config_entry =
     (Inl (UnityTrainerException (''Unknown reward signal type '' @ name)), [])"
  by (simp add: create_reward_signal_def NAME_TO_CLASS_None)

theorem unknown_name_fails_witness:
  "''sac'' \<notin> {''extrinsic'', ''curiosity'', ''gail''} \<and>
   create_reward_signal (\<lambda>c (cfg::unit). None) (\<lambda>c (p::unit) cfg. Inr (0::nat)) () ''sac'' () =
     (Inl (UnityTrainerException ''Unknown reward signal type sac''), [])"
  using unknown_name_fails [of "''sac''" "\<lambda>c (cfg::unit). None" "\<lambda>c (p::unit) cfg. Inr (0::nat)" "()" "()"]
  by simp

text \<open>
  C9. For a registered name whose configuration passes \<^verbatim>\<open>check_config\<close>, a TypeError
  raised by the constructor is replaced by the "Unknown parameters given for reward signal"
  error carrying the name.
\<close>

theorem type_error_translated:
  "NAME_TO_CLASS name = Some rcls \<Longrightarrow>
   check_config rcls config_entry = None \<Longrightarrow>
   rcls_new rcls policy config_entry = Inl (TypeError msg) \<Longrightarrow>
   create_reward_signal check_config rcls_new policy name config_entry =
     (Inl (UnityTrainerException (''Unknown parameters given for reward signal '' @ name)),
      [CheckConfig rcls, Construct rcls])"
  by (simp add: create_reward_signal_def)

theorem type_error_translated_witness:
  "NAME_TO_CLASS ''gail'' = Some GAILSignal \<and>
   create_reward_signal (\<lambda>c (cfg::unit). None)
       (\<lambda>c (p::unit) cfg. (Inl (TypeError ''unexpected keyword argument'') :: exn + nat))
       () ''gail'' () =
     (Inl (UnityTrainerException ''Unknown parameters given for reward signal gail''),
      [CheckConfig GAILSignal, Construct GAILSignal])"
  using type_error_translated [of "''gail''" GAILSignal "\<lambda>c (cfg::unit). None" "()"
      "\<lambda>c (p::unit) cfg. (Inl (TypeError ''unexpected keyword argument'') :: exn + nat)" "()"
      "''unexpected keyword argument''"]
  by (simp add: NAME_TO_CLASS_def)

section \<open>The clipped value estimate\<close>

lemma clipped_value_estimate_nth:
  "length old_value = length value_stream \<Longrightarrow> t < length old_value \<Longrightarrow>
   clipped_value_estimate old_value value_stream eps ! t =
     spec_clipped_value eps (sum_list (value_stream ! t)) (old_value ! t)"
  by (simp add: clipped_value_estimate_def tf_add_def tf_clip_by_value_def tf_sub_def
      tf_reduce_sum_axis1_def spec_clipped_value_def spec_clip_def max.commute min.commute)

text \<open>
  C6. For a clip radius \<open>eps \<ge> 0\<close>, every entry of the clipped value estimate lies within
  \<open>eps\<close> of the old value estimate at the same timestep.
\<close>

theorem clipped_value_in_interval:
  "length old_value = length value_stream \<Longrightarrow> t < length old_value \<Longrightarrow> 0 \<le> eps \<Longrightarrow>
   old_value ! t - eps \<le> clipped_value_estimate old_value value_stream eps ! t \<and>
   clipped_value_estimate old_value value_stream eps ! t \<le> old_value ! t + eps"
  by (simp add: clipped_value_estimate_nth spec_clipped_value_def spec_clip_def)

theorem clipped_value_in_interval_witness:
  "length [1, 2::real] = length [[5], [2::real]] \<and> (0::nat) < length [1, 2::real] \<and> (0::real) \<le> 1 / 5 \<and>
   [1, 2] ! 0 - 1 / 5 \<le> clipped_value_estimate [1, 2] [[5], [2]] (1 / 5) ! 0 \<and>
   clipped_value_estimate [1, 2] [[5], [2]] (1 / 5) ! 0 \<le> [1, 2] ! 0 + 1 / 5"
  using clipped_value_in_interval [of "[1, 2]" "[[5], [2]]" 0 "1 / 5"]
  by simp

section \<open>The schedules\<close>

lemma polynomial_decay_linear:
  "0 < max_step \<Longrightarrow>
   tf_polynomial_decay init step max_step floor_v 1 =
     Some ((init - floor_v) * (1 - min (real_of_int step) max_step / max_step) + floor_v)"
  by (simp add: tf_polynomial_decay_def)

lemma linear_decay_props:
  fixes init floor_v max_step :: real
  assumes "0 < max_step"
  defines "f \<equiv> \<lambda>step. (init - floor_v) * (1 - min (real_of_int step) max_step / max_step) + floor_v"
  shows "f 0 = init"
    and "real_of_int step = max_step \<Longrightarrow> f step = floor_v"
    and "floor_v \<le> init \<Longrightarrow> step \<le> step' \<Longrightarrow> f step' \<le> f step"
    and "floor_v \<le> init \<Longrightarrow> floor_v \<le> f step"
proof -
  show "f 0 = init" using assms by (simp add: f_def)
  show "real_of_int step = max_step \<Longrightarrow> f step = floor_v" using assms by (simp add: f_def)
  have p: "min (real_of_int s) max_step / max_step \<le> 1" for s
    using assms(1) by (simp add: divide_le_eq)
  show "floor_v \<le> f step" if "floor_v \<le> init"
    using that p[of step] by (simp add: f_def)
  show "f step' \<le> f step" if "floor_v \<le> init" "step \<le> step'"
  proof -
    have "min (real_of_int step) max_step / max_step \<le> min (real_of_int step') max_step / max_step"
      using that(2) assms(1) by (intro divide_right_mono) (auto simp: min_def)
    then show ?thesis using that(1) by (simp add: f_def mult_left_mono)
  qed
qed

lemma polynomial_decay_decays:
  assumes "0 < max_step"
  shows "decays_linearly_to_floor (\<lambda>step. tf_polynomial_decay init step max_step floor_v 1)
           init floor_v max_step"
proof -
  note props = linear_decay_props[OF assms, where init = init and floor_v = floor_v]
  have interp: "(init - floor_v) * (1 - min (real_of_int step) max_step / max_step) + floor_v
                = init + (floor_v - init) * (real_of_int step / max_step)"
    if "real_of_int step \<le> max_step" for step
    using that assms by (simp add: min_def field_simps)
  show ?thesis
    unfolding decays_linearly_to_floor_def polynomial_decay_linear[OF assms]
    using props interp by simp
qed

text \<open>
  C4, as amended. For \<open>max_step > 0\<close> each of the three schedules interpolates linearly from
  its initial value at step 0 to its floor (\<open>1e-10\<close>, \<open>0.1\<close>, \<open>1e-5\<close>) at \<open>max_step\<close>; when
  the initial value is at least the floor, the schedule never increases with the step and
  never goes below the floor.
\<close>

theorem schedules_decay_linearly:
  assumes "0 < max_step"
  shows "decays_linearly_to_floor (\<lambda>step. learning_rate_decay lr step max_step)
           lr (1 / 10 ^ 10) max_step \<and>
         decays_linearly_to_floor (\<lambda>step. decay_epsilon epsilon step max_step)
           epsilon (1 / 10) max_step \<and>
         decays_linearly_to_floor (\<lambda>step. decay_beta beta step max_step)
           beta (1 / 10 ^ 5) max_step"
  unfolding learning_rate_decay_def decay_epsilon_def decay_beta_def
  using polynomial_decay_decays[OF assms] by blast

theorem schedules_decay_linearly_witness:
  "(0::real) < 5000000 \<and>
   decays_linearly_to_floor (\<lambda>step. learning_rate_decay (1 / 10 ^ 4) step 5000000)
     (1 / 10 ^ 4) (1 / 10 ^ 10) 5000000 \<and>
   decays_linearly_to_floor (\<lambda>step. decay_epsilon (1 / 5) step 5000000)
     (1 / 5) (1 / 10) 5000000 \<and>
   decays_linearly_to_floor (\<lambda>step. decay_beta (1 / 10 ^ 3) step 5000000)
     (1 / 10 ^ 3) (1 / 10 ^ 5) 5000000"
  using schedules_decay_linearly [of 5000000 "1 / 10 ^ 4" "1 / 5" "1 / 10 ^ 3"]
  by simp

text \<open>
  The claim as stated fails where the initial value is below the floor: with \<open>beta = 0\<close>
  the entropy coefficient is 0 at step 0, below its floor \<open>1e-5\<close>.
\<close>

theorem schedule_below_floor_counterexample:
  "decay_beta 0 0 10 = Some 0 \<and> (0::real) < 1 / 10 ^ 5"
  by (simp add: decay_beta_def tf_polynomial_decay_def)

section \<open>Masked means\<close>

lemma partition_one:
  "tf_dynamic_partition data partitions 2 ! 1 = map fst (filter (\<lambda>(d, q). q = 1) (zip data partitions))"
  by (simp add: tf_dynamic_partition_def numeral_2_eq_2 upt_rec)

lemma filter_zip_nth:
  "length xs = length ms \<Longrightarrow>
   map fst (filter (\<lambda>(d, q). q = (1::int)) (zip xs ms)) =
   map (\<lambda>i. xs ! i) (filter (\<lambda>i. ms ! i = 1) [0..<length ms])"
proof (induction ms arbitrary: xs rule: rev_induct)
  case Nil
  then show ?case by simp
next
  case (snoc m ms)
  from snoc.prems obtain x xs' where xs: "xs = xs' @ [x]" and len: "length xs' = length ms"
    by (cases xs rule: rev_cases) auto
  have f: "filter (\<lambda>i. (ms @ [m]) ! i = 1) [0..<length ms] = filter (\<lambda>i. ms ! i = 1) [0..<length ms]"
    by (rule filter_cong) (auto simp: nth_append)
  have g: "map (\<lambda>i. (xs' @ [x]) ! i) (filter (\<lambda>i. ms ! i = 1) [0..<length ms])
     = map (\<lambda>i. xs' ! i) (filter (\<lambda>i. ms ! i = 1) [0..<length ms])"
    using len by (intro map_cong) (auto simp: nth_append)
  have h: "(xs' @ [x]) ! length ms = x"
    using len by (metis nth_append_length)
  show ?case using snoc.IH[OF len] len by (simp add: xs f g h)
qed

lemma partition_one_nth:
  "length xs = length ms \<Longrightarrow>
   tf_dynamic_partition xs ms 2 ! 1 = map (\<lambda>i. xs ! i) (filter (\<lambda>i. ms ! i = 1) [0..<length ms])"
  unfolding partition_one by (rule filter_zip_nth)

lemma valid_timesteps_nonempty: "1 \<in> set msk \<Longrightarrow> filter (\<lambda>t. msk ! t = 1) [0..<length msk] \<noteq> []"
  by (auto simp: filter_empty_conv in_set_conv_nth)

lemma sum_list_concat_map: "sum_list (concat xss) = sum_list (map sum_list (xss::real list list))"
  by (induct xss) simp_all

lemma mean_partition1:
  assumes "length v = length msk" and "1 \<in> set msk"
  shows "tf_reduce_mean (tf_dynamic_partition v msk 2 ! 1) = Some (masked_mean (\<lambda>t. v ! t) msk)"
proof -
  let ?idx = "filter (\<lambda>t. msk ! t = 1) [0..<length msk]"
  have p: "tf_dynamic_partition v msk 2 ! 1 = map (\<lambda>t. v ! t) ?idx"
    using assms(1) by (rule partition_one_nth)
  have s: "sum_list (map (\<lambda>t. v ! t) ?idx) = (\<Sum>t\<in>valid_timesteps msk. v ! t)"
    unfolding valid_timesteps_def by (rule sum_list_distinct_conv_sum_set) simp
  have c: "length ?idx = card (valid_timesteps msk)"
    unfolding valid_timesteps_def by (rule distinct_card[symmetric]) simp
  have "tf_reduce_mean (map (\<lambda>t. v ! t) ?idx) = Some (masked_mean (\<lambda>t. v ! t) msk)"
    using valid_timesteps_nonempty[OF assms(2)]
    by (simp add: tf_reduce_mean_def masked_mean_def s c[symmetric])
  then show ?thesis unfolding p .
qed

lemma mean_partition2:
  assumes "length M = length msk" and "\<forall>t<length msk. length (M ! t) = k" and "0 < k"
    and "1 \<in> set msk"
  shows "tf_reduce_mean2 (tf_dynamic_partition M msk 2 ! 1) =
         Some (masked_mean (\<lambda>t. sum_list (M ! t) / real k) msk)"
proof -
  let ?idx = "filter (\<lambda>t. msk ! t = 1) [0..<length msk]"
  let ?rows = "map (\<lambda>t. M ! t) ?idx"
  have p: "tf_dynamic_partition M msk 2 ! 1 = ?rows"
    using assms(1) by (rule partition_one_nth)
  have s: "sum_list (concat ?rows) = (\<Sum>t\<in>valid_timesteps msk. sum_list (M ! t))"
  proof -
    have "sum_list (concat ?rows) = sum_list (map (\<lambda>t. sum_list (M ! t)) ?idx)"
      by (simp add: sum_list_concat_map comp_def)
    also have "\<dots> = (\<Sum>t\<in>valid_timesteps msk. sum_list (M ! t))"
      unfolding valid_timesteps_def by (rule sum_list_distinct_conv_sum_set) simp
    finally show ?thesis .
  qed
  have c: "length ?idx = card (valid_timesteps msk)"
    unfolding valid_timesteps_def by (rule distinct_card[symmetric]) simp
  have l: "length (concat ?rows) = k * length ?idx"
  proof -
    have "map (\<lambda>t. length (M ! t)) ?idx = map (\<lambda>t. k) ?idx"
      using assms(2) by (intro map_cong) auto
    then have "sum_list (map (\<lambda>t. length (M ! t)) ?idx) = sum_list (map (\<lambda>t. k) ?idx)"
      by (rule arg_cong)
    also have "\<dots> = k * length ?idx"
      by (simp add: sum_list_triv)
    finally show ?thesis by (simp add: length_concat comp_def)
  qed
  have ne: "concat ?rows \<noteq> []"
  proof
    assume "concat ?rows = []"
    then have "length (concat ?rows) = 0" by (simp only: list.size)
    then have "k * length ?idx = 0" by (simp only: l)
    then show False using assms(3) valid_timesteps_nonempty[OF assms(4)] by simp
  qed
  have "sum_list (concat ?rows) / real (length (concat ?rows))
        = masked_mean (\<lambda>t. sum_list (M ! t) / real k) msk"
    unfolding s l c masked_mean_def by (simp add: sum_divide_distrib[symmetric])
  then have "tf_reduce_mean2 ?rows = Some (masked_mean (\<lambda>t. sum_list (M ! t) / real k) msk)"
    using ne by (simp add: tf_reduce_mean2_def tf_reduce_mean_def)
  then show ?thesis unfolding p .
qed

lemma sum_list_map_upt_lessThan: "sum_list (map f [0..<k]) = (\<Sum>j<k. (f j::real))"
  by (simp add: interv_sum_list_conv_sum_set_nat lessThan_atLeast0)

lemma surrogate_rows:
  fixes eps :: real
  assumes "length probs = n" "length old_probs = n" "length adv = n"
    and "\<forall>t<n. length (probs ! t) = k \<and> length (old_probs ! t) = k"
  defines "M \<equiv> tf_minimum2 (tf_mul_column (tf_exp2 (tf_sub2 probs old_probs)) adv)
       (tf_mul_column (tf_clip_by_value2 (tf_exp2 (tf_sub2 probs old_probs)) (1 - eps) (1 + eps)) adv)"
  shows "length M = n"
    and "\<forall>t<n. M ! t = map (\<lambda>j. spec_surrogate eps (probs ! t ! j) (old_probs ! t ! j) (adv ! t)) [0..<k]"
proof -
  show "length M = n"
    using assms(1-3)
    by (simp add: M_def tf_minimum2_def tf_mul_column_def tf_clip_by_value2_def
        tf_exp2_def tf_sub2_def)
  show "\<forall>t<n. M ! t = map (\<lambda>j. spec_surrogate eps (probs ! t ! j) (old_probs ! t ! j) (adv ! t)) [0..<k]"
  proof (intro allI impI)
    fix t assume t: "t < n"
    then have w: "length (probs ! t) = k" "length (old_probs ! t) = k" using assms(4) by auto
    show "M ! t = map (\<lambda>j. spec_surrogate eps (probs ! t ! j) (old_probs ! t ! j) (adv ! t)) [0..<k]"
      using t assms(1-3) w
      by (intro nth_equalityI)
         (simp_all add: M_def tf_minimum2_def tf_mul_column_def tf_clip_by_value2_def
            tf_exp2_def tf_sub2_def spec_surrogate_def spec_ratio_def spec_clip_def
            max.commute min.commute)
  qed
qed

lemma policy_loss_op_spec:
  assumes "length probs = length msk" "length old_probs = length msk" "length adv = length msk"
    and "\<forall>t<length msk. length (probs ! t) = k \<and> length (old_probs ! t) = k"
    and "0 < k" and "1 \<in> set msk"
  shows "policy_loss_op msk probs old_probs adv eps =
         Some (spec_policy_loss eps probs old_probs adv msk k)"
proof -
  define M where "M = tf_minimum2 (tf_mul_column (tf_exp2 (tf_sub2 probs old_probs)) adv)
       (tf_mul_column (tf_clip_by_value2 (tf_exp2 (tf_sub2 probs old_probs)) (1 - eps) (1 + eps)) adv)"
  note rows = surrogate_rows[OF assms(1-4), of eps, folded M_def]
  have w: "\<forall>t<length msk. length (M ! t) = k" using rows(2) by simp
  have m: "tf_reduce_mean2 (tf_dynamic_partition M msk 2 ! 1) =
         Some (masked_mean (\<lambda>t. sum_list (M ! t) / real k) msk)"
    by (rule mean_partition2[OF rows(1) w assms(5,6)])
  have e: "masked_mean (\<lambda>t. sum_list (M ! t) / real k) msk =
        masked_mean (\<lambda>t. (\<Sum>j<k. spec_surrogate eps (probs ! t ! j) (old_probs ! t ! j) (adv ! t)) / real k) msk"
    unfolding masked_mean_def
    by (intro arg_cong2[where f="(/)"] sum.cong refl)
       (simp add: valid_timesteps_def rows(2) sum_list_map_upt_lessThan)
  have "policy_loss_op msk probs old_probs adv eps =
        map_option uminus (tf_reduce_mean2 (tf_dynamic_partition M msk 2 ! 1))"
    unfolding policy_loss_op_def Let_def M_def ..
  then show ?thesis
    unfolding m e by (simp add: spec_policy_loss_def)
qed

section \<open>What a successful construction builds\<close>

lemma create_placeholders_ok:
  "\<forall>i\<in>set idx. i < length names \<and> tf_valid_op_name (names ! i @ ''_returns'') \<and>
                tf_valid_op_name (names ! i @ ''_value_estimate'') \<Longrightarrow>
   create_placeholders names idx (rh, ov) =
     Inr (rh @ map (\<lambda>i. names ! i @ ''_returns'') idx,
          ov @ map (\<lambda>i. names ! i @ ''_value_estimate'') idx)"
  by (induction idx arbitrary: rh ov) auto

lemma create_placeholders_Inr:
  "create_placeholders names idx (rh, ov) = Inr r \<Longrightarrow>
   \<forall>i\<in>set idx. i < length names \<and> tf_valid_op_name (names ! i @ ''_returns'') \<and>
                tf_valid_op_name (names ! i @ ''_value_estimate'')"
proof (induction idx arbitrary: rh ov)
  case Nil
  then show ?case by simp
next
  case (Cons i idx)
  from Cons.prems have a: "i < length names" "tf_valid_op_name (names ! i @ ''_returns'')"
    "tf_valid_op_name (names ! i @ ''_value_estimate'')"
    by (auto split: if_splits)
  from Cons.prems have "create_placeholders names idx
      (rh @ [names ! i @ ''_returns''], ov @ [names ! i @ ''_value_estimate'']) = Inr r"
    by (simp add: a)
  from Cons.IH[OF this] a show ?case by simp
qed

lemma create_placeholders_no_names:
  "create_placeholders [] idx (rh, ov) = Inl e \<Longrightarrow> e = IndexError"
  by (cases idx) auto

lemma create_value_losses_ok:
  "\<forall>(i, name)\<in>set xs. i < length ov \<and> map_of vs name \<noteq> None \<Longrightarrow>
   create_value_losses msk fd vs ov eps xs acc =
     Inr (acc @ map (\<lambda>(i, name). Option.bind eps
                       (stream_value_loss msk (fed_returns fd i) (fed_old_values fd i)
                          (the (map_of vs name)))) xs)"
  by (induction xs arbitrary: acc) auto

lemma create_value_losses_Inr:
  "create_value_losses msk fd vs ov eps xs acc = Inr r \<Longrightarrow>
   \<forall>(i, name)\<in>set xs. i < length ov \<and> map_of vs name \<noteq> None"
proof (induction xs arbitrary: acc)
  case Nil
  then show ?case by simp
next
  case (Cons x xs)
  obtain i name where x: "x = (i, name)" by (cases x)
  from Cons.prems have a: "i < length ov" and b: "map_of vs name \<noteq> None"
    by (auto simp: x split: if_splits option.splits)
  from b obtain v where v: "map_of vs name = Some v" by auto
  from Cons.prems have "create_value_losses msk fd vs ov eps xs
          (acc @ [Option.bind eps
             (stream_value_loss msk (fed_returns fd i) (fed_old_values fd i) v)]) = Inr r"
    by (simp add: x a v)
  from Cons.IH[OF this] a b show ?case by (simp add: x)
qed

lemma enumerate_all_iff:
  "(\<forall>(i, name)\<in>set (enumerate 0 names). P i name) \<longleftrightarrow> (\<forall>i<length names. P i (names ! i))"
  by (auto simp: in_set_enumerate_eq)

lemma create_losses_Inr:
  assumes "create_losses self fd probs old_probs vs entr beta epsilon lr max_step names = Inr m"
  shows "length vs = length names"
    and "\<forall>i<length names. map_of vs (names ! i) \<noteq> None"
    and "returns_holders m = map (\<lambda>i. names ! i @ ''_returns'') [0..<length names]"
    and "old_values m = map (\<lambda>i. names ! i @ ''_value_estimate'') [0..<length names]"
    and "value_losses m =
           map (\<lambda>i. Option.bind (decay_epsilon epsilon (global_step self) max_step)
                       (stream_value_loss (mask self) (fed_returns fd i) (fed_old_values fd i)
                          (the (map_of vs (names ! i))))) [0..<length names]"
    and "value_loss m = tf_reduce_mean_scalars (value_losses m)"
    and "policy_loss m = Option.bind (decay_epsilon epsilon (global_step self) max_step)
                           (policy_loss_op (mask self) probs old_probs (fed_advantage fd))"
    and "loss m = loss_op (policy_loss m) (value_loss m)
                    (decay_beta beta (global_step self) max_step)
                    (tf_reduce_mean (tf_dynamic_partition entr (mask self) 2 ! 1))"
    and "learning_rate m = learning_rate_decay lr (global_step self) max_step"
proof -
  let ?eps = "decay_epsilon epsilon (global_step self) max_step"
  let ?ov = "map (\<lambda>i. names ! i @ ''_value_estimate'') [0..<length vs]"
  let ?rh = "map (\<lambda>i. names ! i @ ''_returns'') [0..<length vs]"
  from assms obtain r where r: "create_placeholders names [0..<length vs] ([], []) = Inr r"
    by (auto simp: create_losses_def split: sum.splits)
  note ok = create_placeholders_Inr[OF r]
  have le: "length vs \<le> length names"
    using ok by (cases "length vs") (auto dest: bspec[where x = "length vs - 1"])
  have ph: "create_placeholders names [0..<length vs] ([], []) = Inr (?rh, ?ov)"
    using create_placeholders_ok[OF ok, of "[]" "[]"] by simp
  from assms obtain vls where
    vl: "create_value_losses (mask self) fd vs ?ov ?eps (enumerate 0 names) [] = Inr vls"
    by (auto simp: create_losses_def ph Let_def split: sum.splits)
  note all = create_value_losses_Inr[OF vl, unfolded enumerate_all_iff]
  from all have ge: "length names \<le> length vs"
    by (cases "length names") (auto dest: spec[where x="length names - 1"])
  show len: "length vs = length names" using le ge by simp
  show keys: "\<forall>i<length names. map_of vs (names ! i) \<noteq> None" using all by simp
  have vls: "vls = map (\<lambda>(i, name). Option.bind ?eps
                       (stream_value_loss (mask self) (fed_returns fd i) (fed_old_values fd i)
                          (the (map_of vs name)))) (enumerate 0 names)"
    using vl create_value_losses_ok[OF create_value_losses_Inr[OF vl],
        where acc = "[]" and msk = "mask self" and fd = fd and eps = "?eps"] by simp
  have vls': "vls = map (\<lambda>i. Option.bind ?eps
                       (stream_value_loss (mask self) (fed_returns fd i) (fed_old_values fd i)
                          (the (map_of vs (names ! i))))) [0..<length names]"
    unfolding vls by (rule nth_equalityI) (simp_all add: nth_enumerate_eq)
  from assms have m: "m = \<lparr>returns_holders = ?rh, old_values = ?ov, advantage = ''advantages'',
       learning_rate = learning_rate_decay lr (global_step self) max_step,
       value_losses = vls, value_loss = tf_reduce_mean_scalars vls,
       policy_loss = Option.bind ?eps (policy_loss_op (mask self) probs old_probs (fed_advantage fd)),
       loss = loss_op (Option.bind ?eps (policy_loss_op (mask self) probs old_probs (fed_advantage fd)))
                (tf_reduce_mean_scalars vls) (decay_beta beta (global_step self) max_step)
                (tf_reduce_mean (tf_dynamic_partition entr (mask self) 2 ! 1))\<rparr>"
    by (simp add: create_losses_def ph Let_def vl)
  show "returns_holders m = map (\<lambda>i. names ! i @ ''_returns'') [0..<length names]"
    unfolding m len[symmetric] by simp
  show "old_values m = map (\<lambda>i. names ! i @ ''_value_estimate'') [0..<length names]"
    unfolding m len[symmetric] by simp
  show "value_losses m =
           map (\<lambda>i. Option.bind ?eps
                       (stream_value_loss (mask self) (fed_returns fd i) (fed_old_values fd i)
                          (the (map_of vs (names ! i))))) [0..<length names]"
    unfolding m using vls' by simp
  show "value_loss m = tf_reduce_mean_scalars (value_losses m)" unfolding m by simp
  show "policy_loss m = Option.bind ?eps
                           (policy_loss_op (mask self) probs old_probs (fed_advantage fd))"
    unfolding m by simp
  show "loss m = loss_op (policy_loss m) (value_loss m)
                    (decay_beta beta (global_step self) max_step)
                    (tf_reduce_mean (tf_dynamic_partition entr (mask self) 2 ! 1))"
    unfolding m by simp
  show "learning_rate m = learning_rate_decay lr (global_step self) max_step"
    unfolding m by simp
qed

lemma create_losses_succeeds:
  assumes "length vs = length names" and "\<forall>i<length names. map_of vs (names ! i) \<noteq> None"
    and "\<forall>i<length names. tf_valid_op_name (names ! i @ ''_returns'') \<and>
                           tf_valid_op_name (names ! i @ ''_value_estimate'')"
  shows "\<exists>m. create_losses self fd probs old_probs vs entr beta epsilon lr max_step names = Inr m"
proof -
  let ?ov = "map (\<lambda>i. names ! i @ ''_value_estimate'') [0..<length vs]"
  let ?rh = "map (\<lambda>i. names ! i @ ''_returns'') [0..<length vs]"
  have ph: "create_placeholders names [0..<length vs] ([], []) = Inr (?rh, ?ov)"
    using create_placeholders_ok[of "[0..<length vs]" names "[]" "[]"] assms(1,3) by simp
  have "\<forall>(i, name)\<in>set (enumerate 0 names). i < length ?ov \<and> map_of vs name \<noteq> None"
    unfolding enumerate_all_iff using assms by simp
  from create_value_losses_ok[OF this, where acc = "[]" and msk = "mask self" and fd = fd
      and eps = "decay_epsilon epsilon (global_step self) max_step"]
  show ?thesis by (simp add: create_losses_def ph Let_def)
qed

section \<open>The sample run, evaluated\<close>

lemmas tf_defs = tf_sub_def tf_add_def tf_clip_by_value_def tf_squared_difference_def
  tf_maximum_def tf_reduce_sum_axis1_def tf_sub2_def tf_exp2_def tf_clip_by_value2_def
  tf_minimum2_def tf_mul_column_def tf_dynamic_partition_def tf_reduce_mean_def
  tf_reduce_mean2_def tf_polynomial_decay_def tf_reduce_mean_scalars_def

lemma sample_names_valid:
  "tf_valid_op_name ''extrinsic_returns''" "tf_valid_op_name ''extrinsic_value_estimate''"
  "tf_valid_op_name ''curiosity_returns''" "tf_valid_op_name ''curiosity_value_estimate''"
  by (simp_all add: tf_valid_op_name_def tf_alnum_def)

lemma sample_eval:
  "sample_losses = Inr \<lparr>returns_holders = [''extrinsic_returns'', ''curiosity_returns''],
      old_values = [''extrinsic_value_estimate'', ''curiosity_value_estimate''],
      advantage = ''advantages'', learning_rate = Some (1 / 10000),
      value_losses = [Some (196 / 25), Some 1], value_loss = Some (221 / 50),
      policy_loss = Some (- 2), loss = Some (209 / 1000)\<rparr>"
  by (simp add: sample_losses_def sample_model_def sample_feed_def create_losses_def
      sample_names_valid enumerate_eq_zip upt_rec[of 0] numeral_2_eq_2
      decay_epsilon_def decay_beta_def learning_rate_decay_def stream_value_loss_def
      clipped_value_estimate_def policy_loss_op_def loss_op_def tf_defs Let_def
      del: not_None_eq)

lemma sample_succeeds: "sample_losses = Inr (projr sample_losses)"
  by (simp add: sample_eval)

lemma sample_succeeds_alt: "sample_losses_alt = Inr (projr sample_losses_alt)"
proof -
  have "\<exists>m. sample_losses_alt = Inr m"
    unfolding sample_losses_alt_def
    by (rule create_losses_succeeds)
       (simp_all add: sample_model_alt_def less_Suc_eq sample_names_valid)
  then show ?thesis by (metis sum.sel(2))
qed

lemma sample_self: "create_losses sample_model sample_feed (log_probs sample_model)
       (old_log_probs sample_model) (value_heads sample_model) (entropy sample_model)
       (1 / 1000) (1 / 5) (1 / 10000) 5000000 [''extrinsic'', ''curiosity''] = Inr (projr sample_losses)"
  using sample_succeeds by (simp add: sample_losses_def)

lemma sample_mask: "mask sample_model = [1, 0]" "global_step sample_model = 0"
  by (simp_all add: sample_model_def)

section \<open>The policy loss\<close>

text \<open>
  C1. When the construction succeeds and the schedule gives the clip radius \<open>eps\<close>, the
  policy loss is the negated masked mean, over the timesteps whose mask is 1, of the
  elementwise minimum of \<open>r * advantage\<close> and \<open>clip(r, 1 - eps, 1 + eps) * advantage\<close> with
  \<open>r = exp(current_log_prob - old_log_prob)\<close>, for every batch of shape-consistent
  log-probabilities and advantages and every 0/1 mask with a valid timestep.
\<close>

theorem policy_loss_clipped_surrogate:
  assumes "create_losses self fd probs old_probs value_streams entr beta epsilon lr max_step
             stream_names = Inr m"
    and "decay_epsilon epsilon (global_step self) max_step = Some eps"
    and "length probs = length (mask self)" and "length old_probs = length (mask self)"
    and "length (fed_advantage fd) = length (mask self)"
    and "\<forall>t<length (mask self). length (probs ! t) = k \<and> length (old_probs ! t) = k"
    and "0 < k" and "set (mask self) \<subseteq> {0, 1}" and "1 \<in> set (mask self)"
  shows "policy_loss m =
         Some (spec_policy_loss eps probs old_probs (fed_advantage fd) (mask self) k)"
  using create_losses_Inr(7)[OF assms(1)] assms(2)
    policy_loss_op_spec[OF assms(3-7) assms(9)]
  by simp

theorem policy_loss_clipped_surrogate_witness:
  "policy_loss (projr sample_losses) =
     Some (spec_policy_loss (1 / 5) (log_probs sample_model) (old_log_probs sample_model)
             (fed_advantage sample_feed) (mask sample_model) 1) \<and>
   policy_loss (projr sample_losses) = Some (- 2)"
proof -
  have e: "decay_epsilon (1 / 5) (global_step sample_model) 5000000 = Some (1 / 5)"
    by (simp add: decay_epsilon_def tf_polynomial_decay_def sample_mask)
  have w: "\<forall>t<length (mask sample_model).
             length (log_probs sample_model ! t) = 1 \<and> length (old_log_probs sample_model ! t) = 1"
    by (simp add: sample_model_def less_Suc_eq)
  have "policy_loss (projr sample_losses) =
     Some (spec_policy_loss (1 / 5) (log_probs sample_model) (old_log_probs sample_model)
             (fed_advantage sample_feed) (mask sample_model) 1)"
    by (rule policy_loss_clipped_surrogate[OF sample_self e _ _ _ w])
       (simp_all add: sample_model_def sample_feed_def)
  then show ?thesis by (simp add: sample_eval)
qed

section \<open>The value loss\<close>

lemma valid_timesteps_iff: "t \<in> valid_timesteps msk \<longleftrightarrow> t < length msk \<and> msk ! t = 1"
  by (auto simp: valid_timesteps_def)

lemma masked_mean_cong:
  "(\<And>t. t < length msk \<Longrightarrow> msk ! t = 1 \<Longrightarrow> f t = g t) \<Longrightarrow> masked_mean f msk = masked_mean g msk"
  unfolding masked_mean_def
  by (intro arg_cong2[where f="(/)"] sum.cong refl) (simp add: valid_timesteps_iff)

lemma value_tensor:
  fixes eps :: real
  assumes "length R = n" "length v_old = n" "length vs = n"
  defines "T \<equiv> tf_maximum (tf_squared_difference R (tf_reduce_sum_axis1 vs))
                 (tf_squared_difference R (clipped_value_estimate v_old vs eps))"
  shows "length T = n"
    and "\<forall>t<n. T ! t = max ((R ! t - sum_list (vs ! t)) ^ 2)
                           ((R ! t - spec_clipped_value eps (sum_list (vs ! t)) (v_old ! t)) ^ 2)"
proof -
  have lc: "length (clipped_value_estimate v_old vs eps) = n"
    using assms(1-3)
    by (simp add: clipped_value_estimate_def tf_add_def tf_clip_by_value_def tf_sub_def
        tf_reduce_sum_axis1_def)
  show "length T = n"
    using assms(1-3) lc
    by (simp add: T_def tf_maximum_def tf_squared_difference_def tf_reduce_sum_axis1_def)
  show "\<forall>t<n. T ! t = max ((R ! t - sum_list (vs ! t)) ^ 2)
                           ((R ! t - spec_clipped_value eps (sum_list (vs ! t)) (v_old ! t)) ^ 2)"
    using assms(1-3) lc clipped_value_estimate_nth[of v_old vs _ eps]
    by (simp add: T_def tf_maximum_def tf_squared_difference_def tf_reduce_sum_axis1_def
        power2_eq_square)
qed

lemma stream_value_loss_spec:
  assumes "length R = length msk" "length v_old = length msk" "length vs = length msk"
    and "1 \<in> set msk"
  shows "stream_value_loss msk R v_old vs eps = Some (spec_stream_value_loss eps R vs v_old msk)"
proof -
  define T where "T = tf_maximum (tf_squared_difference R (tf_reduce_sum_axis1 vs))
                 (tf_squared_difference R (clipped_value_estimate v_old vs eps))"
  note vt = value_tensor[OF assms(1-3), of eps, folded T_def]
  have "stream_value_loss msk R v_old vs eps = tf_reduce_mean (tf_dynamic_partition T msk 2 ! 1)"
    unfolding stream_value_loss_def Let_def T_def ..
  also have "\<dots> = Some (masked_mean (\<lambda>t. T ! t) msk)"
    by (rule mean_partition1[OF vt(1) assms(4)])
  also have "masked_mean (\<lambda>t. T ! t) msk = spec_stream_value_loss eps R vs v_old msk"
    unfolding spec_stream_value_loss_def by (rule masked_mean_cong) (simp add: vt(2))
  finally show ?thesis .
qed

lemma reduce_mean_scalars_Some:
  "xs \<noteq> [] \<Longrightarrow> tf_reduce_mean_scalars (map Some xs) = Some (spec_value_loss xs)"
  by (simp add: tf_reduce_mean_scalars_def tf_reduce_mean_def spec_value_loss_def
      list_all_iff comp_def)

text \<open>
  C2. When the construction succeeds with clip radius \<open>eps\<close>, the loss of stream \<open>i\<close> is the
  masked mean, over the timesteps whose mask is 1, of the larger of \<open>(R - V)^2\<close> and
  \<open>(R - V_clipped)^2\<close> with \<open>V_clipped = V_old + clip(V - V_old, -eps, eps)\<close>, and the value
  loss is the unweighted mean of the stream losses.
\<close>

theorem value_loss_clipped:
  assumes "create_losses self fd probs old_probs value_streams entr beta epsilon lr max_step
             stream_names = Inr m"
    and "decay_epsilon epsilon (global_step self) max_step = Some eps"
    and "\<forall>i<length stream_names.
           length (fed_returns fd i) = length (mask self) \<and>
           length (fed_old_values fd i) = length (mask self) \<and>
           length (the (map_of value_streams (stream_names ! i))) = length (mask self)"
    and "set (mask self) \<subseteq> {0, 1}" and "1 \<in> set (mask self)" and "stream_names \<noteq> []"
  shows "length (value_losses m) = length stream_names \<and>
         (\<forall>i<length stream_names.
            value_losses m ! i =
              Some (spec_stream_value_loss eps (fed_returns fd i)
                      (the (map_of value_streams (stream_names ! i)))
                      (fed_old_values fd i) (mask self))) \<and>
         value_loss m =
           Some (spec_value_loss
                   (map (\<lambda>i. spec_stream_value_loss eps (fed_returns fd i)
                                 (the (map_of value_streams (stream_names ! i)))
                                 (fed_old_values fd i) (mask self))
                      [0..<length stream_names]))"
proof -
  let ?f = "\<lambda>i. spec_stream_value_loss eps (fed_returns fd i)
                   (the (map_of value_streams (stream_names ! i))) (fed_old_values fd i) (mask self)"
  have vls: "value_losses m = map Some (map ?f [0..<length stream_names])"
    unfolding create_losses_Inr(5)[OF assms(1)] assms(2)
    using assms(3) by (simp add: stream_value_loss_spec[OF _ _ _ assms(5)])
  have ne: "map ?f [0..<length stream_names] \<noteq> []" using assms(6) by simp
  show ?thesis
    unfolding create_losses_Inr(6)[OF assms(1)] vls reduce_mean_scalars_Some[OF ne]
    by simp
qed

theorem value_loss_clipped_witness:
  "length (value_losses (projr sample_losses)) = length [''extrinsic'', ''curiosity''] \<and>
   value_loss (projr sample_losses) =
     Some (spec_value_loss
             (map (\<lambda>i. spec_stream_value_loss (1 / 5) (fed_returns sample_feed i)
                          (the (map_of (value_heads sample_model) ([''extrinsic'', ''curiosity''] ! i)))
                          (fed_old_values sample_feed i) (mask sample_model))
                [0..<length [''extrinsic'', ''curiosity'']])) \<and>
   value_loss (projr sample_losses) = Some (221 / 50)"
proof -
  have e: "decay_epsilon (1 / 5) (global_step sample_model) 5000000 = Some (1 / 5)"
    by (simp add: decay_epsilon_def tf_polynomial_decay_def sample_mask)
  have s: "\<forall>i<length [''extrinsic'', ''curiosity''].
           length (fed_returns sample_feed i) = length (mask sample_model) \<and>
           length (fed_old_values sample_feed i) = length (mask sample_model) \<and>
           length (the (map_of (value_heads sample_model) ([''extrinsic'', ''curiosity''] ! i)))
             = length (mask sample_model)"
    by (simp add: sample_model_def sample_feed_def less_Suc_eq)
  from value_loss_clipped[OF sample_self e s]
  show ?thesis by (simp add: sample_mask sample_eval)
qed

section \<open>The total loss\<close>

lemma loss_op_Some:
  "loss_op (Some p) (Some v) (Some b) (Some e) = Some (p + 0.5 * v - b * e)"
  by (simp add: loss_op_def)

text \<open>
  C3. When the construction succeeds, the total loss is
  \<open>policy_loss + 0.5 * value_loss - decay_beta * e\<close>, where \<open>e\<close> is the masked mean of the
  entropy over the timesteps whose mask is 1.
\<close>

theorem total_loss_formula:
  assumes "create_losses self fd probs old_probs value_streams entr beta epsilon lr max_step
             stream_names = Inr m"
    and "policy_loss m = Some p" and "value_loss m = Some v"
    and "decay_beta beta (global_step self) max_step = Some b"
    and "length entr = length (mask self)"
    and "set (mask self) \<subseteq> {0, 1}" and "1 \<in> set (mask self)"
  shows "loss m = Some (spec_total_loss p v b entr (mask self))"
  unfolding create_losses_Inr(8)[OF assms(1)] assms(2,3,4) mean_partition1[OF assms(5,7)]
    loss_op_Some spec_total_loss_def ..

theorem total_loss_formula_witness:
  "loss (projr sample_losses) =
     Some (spec_total_loss (- 2) (221 / 50) (1 / 1000) (entropy sample_model) (mask sample_model)) \<and>
   loss (projr sample_losses) = Some (209 / 1000)"
proof -
  have b: "decay_beta (1 / 1000) (global_step sample_model) 5000000 = Some (1 / 1000)"
    by (simp add: decay_beta_def tf_polynomial_decay_def sample_mask)
  have "loss (projr sample_losses) =
     Some (spec_total_loss (- 2) (221 / 50) (1 / 1000) (entropy sample_model) (mask sample_model))"
    by (rule total_loss_formula[OF sample_self _ _ b])
       (simp_all add: sample_eval sample_model_def)
  then show ?thesis by (simp add: sample_eval)
qed

section \<open>Masked timesteps do not reach the losses\<close>

lemma partition_cong:
  assumes "agree_on_valid msk a b"
  shows "tf_dynamic_partition a msk 2 ! 1 = tf_dynamic_partition b msk 2 ! 1"
proof -
  from assms have la: "length a = length msk" and lb: "length b = length msk"
    and eq: "\<And>t. t < length msk \<Longrightarrow> msk ! t = 1 \<Longrightarrow> a ! t = b ! t"
    by (auto simp: agree_on_valid_def)
  show ?thesis
    unfolding partition_one_nth[OF la] partition_one_nth[OF lb]
    by (rule map_cong) (auto simp: eq)
qed

lemma surrogate_tensor_agree:
  fixes eps :: real
  assumes "agree_on_valid msk probs probs'" "agree_on_valid msk old_probs old_probs'"
    and "agree_on_valid msk adv adv'"
  shows "agree_on_valid msk
     (tf_minimum2 (tf_mul_column (tf_exp2 (tf_sub2 probs old_probs)) adv)
       (tf_mul_column (tf_clip_by_value2 (tf_exp2 (tf_sub2 probs old_probs)) (1 - eps) (1 + eps)) adv))
     (tf_minimum2 (tf_mul_column (tf_exp2 (tf_sub2 probs' old_probs')) adv')
       (tf_mul_column (tf_clip_by_value2 (tf_exp2 (tf_sub2 probs' old_probs')) (1 - eps) (1 + eps)) adv'))"
  using assms
  by (simp add: agree_on_valid_def tf_minimum2_def tf_mul_column_def tf_clip_by_value2_def
      tf_exp2_def tf_sub2_def)

lemma policy_loss_op_cong:
  assumes "agree_on_valid msk probs probs'" "agree_on_valid msk old_probs old_probs'"
    and "agree_on_valid msk adv adv'"
  shows "policy_loss_op msk probs old_probs adv eps = policy_loss_op msk probs' old_probs' adv' eps"
  unfolding policy_loss_op_def Let_def
    partition_cong[OF surrogate_tensor_agree[OF assms, of eps]] ..

lemma value_tensor_agree:
  fixes eps :: real
  assumes "agree_on_valid msk R R'" "agree_on_valid msk v_old v_old'"
    and "agree_on_valid msk vs vs'"
  shows "agree_on_valid msk
     (tf_maximum (tf_squared_difference R (tf_reduce_sum_axis1 vs))
                 (tf_squared_difference R (clipped_value_estimate v_old vs eps)))
     (tf_maximum (tf_squared_difference R' (tf_reduce_sum_axis1 vs'))
                 (tf_squared_difference R' (clipped_value_estimate v_old' vs' eps)))"
proof -
  from assms have l: "length R = length msk" "length v_old = length msk" "length vs = length msk"
    "length R' = length msk" "length v_old' = length msk" "length vs' = length msk"
    by (auto simp: agree_on_valid_def)
  note a = value_tensor[OF l(1-3), of eps] and b = value_tensor[OF l(4-6), of eps]
  show ?thesis
    unfolding agree_on_valid_def using a b assms by (simp add: agree_on_valid_def)
qed

lemma stream_value_loss_cong:
  assumes "agree_on_valid msk R R'" "agree_on_valid msk v_old v_old'"
    and "agree_on_valid msk vs vs'"
  shows "stream_value_loss msk R v_old vs eps = stream_value_loss msk R' v_old' vs' eps"
  unfolding stream_value_loss_def Let_def
    partition_cong[OF value_tensor_agree[OF assms, of eps]] ..

text \<open>
  C5. Two batches with the same mask and step that agree on every timestep whose mask is 1,
  in log-probabilities, advantages, entropy, returns, old and current value estimates, give
  the same value loss, policy loss, entropy term and total loss, whatever they hold at the
  timesteps whose mask is 0.
\<close>

theorem masked_timesteps_do_not_matter:
  assumes "create_losses self fd probs old_probs vs entr beta epsilon lr max_step names = Inr m"
    and "create_losses self' fd' probs' old_probs' vs' entr' beta epsilon lr max_step names = Inr m'"
    and "mask self' = mask self" and "global_step self' = global_step self"
    and "set (mask self) \<subseteq> {0, 1}"
    and "agree_on_valid (mask self) probs probs'"
    and "agree_on_valid (mask self) old_probs old_probs'"
    and "agree_on_valid (mask self) (fed_advantage fd) (fed_advantage fd')"
    and "agree_on_valid (mask self) entr entr'"
    and "\<forall>i<length names.
           agree_on_valid (mask self) (fed_returns fd i) (fed_returns fd' i) \<and>
           agree_on_valid (mask self) (fed_old_values fd i) (fed_old_values fd' i) \<and>
           agree_on_valid (mask self) (the (map_of vs (names ! i))) (the (map_of vs' (names ! i)))"
  shows "value_loss m' = value_loss m \<and> policy_loss m' = policy_loss m \<and>
         tf_reduce_mean (tf_dynamic_partition entr' (mask self') 2 ! 1) =
           tf_reduce_mean (tf_dynamic_partition entr (mask self) 2 ! 1) \<and>
         loss m' = loss m"
proof -
  note A = create_losses_Inr[OF assms(1)] and B = create_losses_Inr[OF assms(2)]
  have vls: "value_losses m' = value_losses m"
    unfolding A(5) B(5) assms(3,4)
    using assms(10) by (auto intro!: arg_cong[where f="Option.bind _"] stream_value_loss_cong[symmetric])
  have v: "value_loss m' = value_loss m" unfolding A(6) B(6) vls ..
  have p: "policy_loss m' = policy_loss m"
    unfolding A(7) B(7) assms(3,4)
    by (intro arg_cong[where f="Option.bind _"] ext policy_loss_op_cong[symmetric] assms(6-8))
  have e: "tf_reduce_mean (tf_dynamic_partition entr' (mask self') 2 ! 1) =
           tf_reduce_mean (tf_dynamic_partition entr (mask self) 2 ! 1)"
    unfolding assms(3) partition_cong[OF assms(9)] ..
  have l: "loss m' = loss m" unfolding A(8) B(8) v p e assms(4) ..
  show ?thesis using v p e l by blast
qed

theorem masked_timesteps_do_not_matter_witness:
  "value_loss (projr sample_losses_alt) = value_loss (projr sample_losses) \<and>
   policy_loss (projr sample_losses_alt) = policy_loss (projr sample_losses) \<and>
   tf_reduce_mean (tf_dynamic_partition (entropy sample_model_alt) (mask sample_model_alt) 2 ! 1) =
     tf_reduce_mean (tf_dynamic_partition (entropy sample_model) (mask sample_model) 2 ! 1) \<and>
   loss (projr sample_losses_alt) = loss (projr sample_losses) \<and>
   loss (projr sample_losses) = Some (209 / 1000)"
proof -
  have a: "create_losses sample_model sample_feed (log_probs sample_model)
       (old_log_probs sample_model) (value_heads sample_model) (entropy sample_model)
       (1 / 1000) (1 / 5) (1 / 10000) 5000000 [''extrinsic'', ''curiosity''] = Inr (projr sample_losses)"
    using sample_succeeds by (simp add: sample_losses_def)
  have b: "create_losses sample_model_alt sample_feed_alt (log_probs sample_model_alt)
       (old_log_probs sample_model_alt) (value_heads sample_model_alt) (entropy sample_model_alt)
       (1 / 1000) (1 / 5) (1 / 10000) 5000000 [''extrinsic'', ''curiosity''] = Inr (projr sample_losses_alt)"
    using sample_succeeds_alt by (simp add: sample_losses_alt_def)
  have c: "\<forall>i<length [''extrinsic'', ''curiosity''].
           agree_on_valid (mask sample_model) (fed_returns sample_feed i) (fed_returns sample_feed_alt i) \<and>
           agree_on_valid (mask sample_model) (fed_old_values sample_feed i) (fed_old_values sample_feed_alt i) \<and>
           agree_on_valid (mask sample_model)
             (the (map_of (value_heads sample_model) ([''extrinsic'', ''curiosity''] ! i)))
             (the (map_of (value_heads sample_model_alt) ([''extrinsic'', ''curiosity''] ! i)))"
    by (simp add: agree_on_valid_def sample_model_def sample_model_alt_def sample_feed_def
        sample_feed_alt_def less_Suc_eq)
  have "value_loss (projr sample_losses_alt) = value_loss (projr sample_losses) \<and>
   policy_loss (projr sample_losses_alt) = policy_loss (projr sample_losses) \<and>
   tf_reduce_mean (tf_dynamic_partition (entropy sample_model_alt) (mask sample_model_alt) 2 ! 1) =
     tf_reduce_mean (tf_dynamic_partition (entropy sample_model) (mask sample_model) 2 ! 1) \<and>
   loss (projr sample_losses_alt) = loss (projr sample_losses)"
    by (rule masked_timesteps_do_not_matter[OF a b _ _ _ _ _ _ _ c])
       (simp_all add: agree_on_valid_def sample_model_def sample_model_alt_def sample_feed_def
        sample_feed_alt_def less_Suc_eq)
  then show ?thesis by (simp add: sample_eval)
qed

section \<open>Streams, value heads and placeholders\<close>

text \<open>
  C7, as amended. When \<open>stream_names\<close> has as many entries as \<open>value_streams\<close> has keys,
  every name is a key of \<open>value_streams\<close>, the names are pairwise distinct and TensorFlow
  accepts the two placeholder names made from each, the construction succeeds; the \<open>i\<close>-th
  returns and old-value placeholders are requested under the names made from
  \<open>stream_names[i]\<close>, the \<open>i\<close>-th loss term pairs the value head of \<open>stream_names[i]\<close> with
  the values fed to the \<open>i\<close>-th placeholders, every name has exactly one index, and every key
  of \<open>value_streams\<close> is a stream name.
\<close>

theorem streams_matched_by_index:
  assumes "length stream_names = length value_streams"
    and "set stream_names \<subseteq> fst ` set value_streams"
    and "distinct stream_names" and "distinct (map fst value_streams)"
    and "\<forall>name\<in>set stream_names.
           tf_valid_op_name (name @ ''_returns'') \<and>
           tf_valid_op_name (name @ ''_value_estimate'')"
  shows "\<exists>m. create_losses self fd probs old_probs value_streams entr beta epsilon lr max_step
               stream_names = Inr m \<and>
           length (returns_holders m) = length stream_names \<and>
           length (old_values m) = length stream_names \<and>
           length (value_losses m) = length stream_names \<and>
           (\<forall>i<length stream_names.
              returns_holders m ! i = stream_names ! i @ ''_returns'' \<and>
              old_values m ! i = stream_names ! i @ ''_value_estimate'' \<and>
              (\<exists>head. map_of value_streams (stream_names ! i) = Some head \<and>
                 value_losses m ! i =
                   Option.bind (decay_epsilon epsilon (global_step self) max_step)
                     (stream_value_loss (mask self) (fed_returns fd i) (fed_old_values fd i)
                        head))) \<and>
           (\<forall>name\<in>set stream_names. \<exists>!i. i < length stream_names \<and> stream_names ! i = name) \<and>
           fst ` set value_streams = set stream_names"
proof -
  have keys: "\<forall>i<length stream_names. map_of value_streams (stream_names ! i) \<noteq> None"
    using assms(2) by (auto simp: map_of_eq_None_iff)
  have valid: "\<forall>i<length stream_names.
      tf_valid_op_name (stream_names ! i @ ''_returns'') \<and>
      tf_valid_op_name (stream_names ! i @ ''_value_estimate'')"
    using assms(5) by simp
  from create_losses_succeeds[OF assms(1)[symmetric] keys valid]
  obtain m where m: "create_losses self fd probs old_probs value_streams entr beta epsilon lr
      max_step stream_names = Inr m" by blast
  note r = create_losses_Inr[OF m]
  have one: "\<forall>name\<in>set stream_names. \<exists>!i. i < length stream_names \<and> stream_names ! i = name"
    using assms(3) by (auto simp: in_set_conv_nth nth_eq_iff_index_eq)
  have "card (fst ` set value_streams) = length value_streams"
    using distinct_card[OF assms(4)] by simp
  also have "\<dots> = card (set stream_names)"
    using distinct_card[OF assms(3)] assms(1) by simp
  finally have eq: "fst ` set value_streams = set stream_names"
    using assms(2) by (metis card_subset_eq finite_imageI finite_set)
  show ?thesis
    using m keys one eq by (auto simp: r(3,4,5))
qed

theorem streams_matched_by_index_witness:
  "returns_holders (projr sample_losses) = [''extrinsic_returns'', ''curiosity_returns''] \<and>
   old_values (projr sample_losses) = [''extrinsic_value_estimate'', ''curiosity_value_estimate''] \<and>
   length (value_losses (projr sample_losses)) = 2"
proof -
  from streams_matched_by_index[of "[''extrinsic'', ''curiosity'']" "value_heads sample_model"
      sample_model sample_feed "log_probs sample_model" "old_log_probs sample_model"
      "entropy sample_model" "1 / 1000" "1 / 5" "1 / 10000" 5000000]
  obtain m where m: "sample_losses = Inr m"
    and l: "length (returns_holders m) = 2" "length (old_values m) = 2" "length (value_losses m) = 2"
    and n: "\<forall>i<2. returns_holders m ! i = [''extrinsic'', ''curiosity''] ! i @ ''_returns'' \<and>
              old_values m ! i = [''extrinsic'', ''curiosity''] ! i @ ''_value_estimate''"
    unfolding sample_losses_def by (auto simp: sample_model_def sample_names_valid)
  have "returns_holders m = [''extrinsic_returns'', ''curiosity_returns'']"
    using l(1) n by (intro nth_equalityI) (auto simp: less_Suc_eq numeral_2_eq_2)
  moreover have "old_values m = [''extrinsic_value_estimate'', ''curiosity_value_estimate'']"
    using l(2) n by (intro nth_equalityI) (auto simp: less_Suc_eq numeral_2_eq_2)
  moreover have "projr sample_losses = m" using m by (metis sum.sel(2))
  ultimately show ?thesis using l(3) by simp
qed

text \<open>
  The claim as stated fails, in three ways, each with as many names as value streams.
  A name that is not a key: the construction raises KeyError, so the name has no value head.
  A repeated name: the construction succeeds with two returns placeholders for the one name,
  and the value head under the other key belongs to no name. A name TensorFlow rejects: the
  construction raises ValueError at the first placeholder.
\<close>

theorem equal_lengths_counterexample:
  "length [''extrinsic''] = length [(''curiosity'', [[1 :: real]])] \<and>
   create_losses sample_model sample_feed [[0]] [[0]] [(''curiosity'', [[1]])] [1]
     (1 / 1000) (1 / 5) (1 / 10000) 5000000 [''extrinsic''] = Inl (KeyError ''extrinsic'') \<and>
   length [''extrinsic'', ''extrinsic''] =
     length [(''extrinsic'', [[1 :: real], [2]]), (''curiosity'', [[0], [5]])] \<and>
   map_sum id returns_holders
     (create_losses sample_model sample_feed (log_probs sample_model)
        (old_log_probs sample_model) (value_heads sample_model) (entropy sample_model)
        (1 / 1000) (1 / 5) (1 / 10000) 5000000 [''extrinsic'', ''extrinsic''])
     = Inr [''extrinsic_returns'', ''extrinsic_returns''] \<and>
   length [''''] = length [('''', [[1 :: real]])] \<and>
   create_losses sample_model sample_feed [[0]] [[0]] [('''', [[1]])] [1]
     (1 / 1000) (1 / 5) (1 / 10000) 5000000 [''''] = Inl (ValueError ''_returns'')"
proof -
  have a: "create_losses sample_model sample_feed [[0]] [[0]] [(''curiosity'', [[1]])] [1]
     (1 / 1000) (1 / 5) (1 / 10000) 5000000 [''extrinsic''] = Inl (KeyError ''extrinsic'')"
    by (simp add: create_losses_def enumerate_eq_zip sample_names_valid)
  have "\<exists>m. create_losses sample_model sample_feed (log_probs sample_model)
        (old_log_probs sample_model) (value_heads sample_model) (entropy sample_model)
        (1 / 1000) (1 / 5) (1 / 10000) 5000000 [''extrinsic'', ''extrinsic''] = Inr m"
    by (rule create_losses_succeeds)
       (simp_all add: sample_model_def less_Suc_eq sample_names_valid)
  then obtain m where m: "create_losses sample_model sample_feed (log_probs sample_model)
        (old_log_probs sample_model) (value_heads sample_model) (entropy sample_model)
        (1 / 1000) (1 / 5) (1 / 10000) 5000000 [''extrinsic'', ''extrinsic''] = Inr m"
    by blast
  have "returns_holders m = [''extrinsic_returns'', ''extrinsic_returns'']"
    unfolding create_losses_Inr(3)[OF m] by (simp add: upt_rec[of 0] numeral_2_eq_2)
  then have b: "map_sum id returns_holders
     (create_losses sample_model sample_feed (log_probs sample_model)
        (old_log_probs sample_model) (value_heads sample_model) (entropy sample_model)
        (1 / 1000) (1 / 5) (1 / 10000) 5000000 [''extrinsic'', ''extrinsic''])
     = Inr [''extrinsic_returns'', ''extrinsic_returns'']"
    unfolding m by simp
  have c: "create_losses sample_model sample_feed [[0]] [[0]] [('''', [[1]])] [1]
     (1 / 1000) (1 / 5) (1 / 10000) 5000000 [''''] = Inl (ValueError ''_returns'')"
    by (simp add: create_losses_def tf_valid_op_name_def tf_alnum_def)
  show ?thesis using a b c by simp
qed

section \<open>The default stream names\<close>

lemma create_losses_no_names:
  "create_losses self fd probs old_probs vs entr beta epsilon lr max_step [] = Inl e \<Longrightarrow>
   e = IndexError"
  by (auto simp: create_losses_def Let_def split: sum.splits dest: create_placeholders_no_names)

text \<open>
  C10. Constructing the model with \<open>stream_names = None\<close> gives what constructing it with
  the empty list gives. A model it returns has no returns and no old-value placeholders and
  its base model was initialised with the empty list; otherwise the construction raised
  IndexError at \<open>stream_names[0]\<close>, before creating a placeholder.
\<close>

theorem default_stream_names_empty:
  "PPOModel_init LearningModel_init cc dc fd brain lr h_size epsilon beta max_step nz ur nl
     m_size seed None =
   PPOModel_init LearningModel_init cc dc fd brain lr h_size epsilon beta max_step nz ur nl
     m_size seed (Some []) \<and>
   (\<forall>m. PPOModel_init LearningModel_init cc dc fd brain lr h_size epsilon beta max_step nz ur nl
          m_size seed None = Inr m \<longrightarrow>
        returns_holders (losses m) = [] \<and> old_values (losses m) = [] \<and>
        base m = create_actor_critic cc dc brain (LearningModel_init m_size nz ur brain seed [])
                   h_size (if nl < 1 then 1 else nl)) \<and>
   (\<forall>e. PPOModel_init LearningModel_init cc dc fd brain lr h_size epsilon beta max_step nz ur nl
          m_size seed None = Inl e \<longrightarrow> e = IndexError)"
proof (intro conjI allI impI)
  show "PPOModel_init LearningModel_init cc dc fd brain lr h_size epsilon beta max_step nz ur nl
     m_size seed None =
   PPOModel_init LearningModel_init cc dc fd brain lr h_size epsilon beta max_step nz ur nl
     m_size seed (Some [])"
    by (simp add: PPOModel_init_def)
next
  fix m
  assume a: "PPOModel_init LearningModel_init cc dc fd brain lr h_size epsilon beta max_step nz
     ur nl m_size seed None = Inr m"
  let ?self = "create_actor_critic cc dc brain (LearningModel_init m_size nz ur brain seed [])
                   h_size (if nl < 1 then 1 else nl)"
  from a obtain l where l: "create_losses ?self fd (log_probs ?self) (old_log_probs ?self)
      (value_heads ?self) (entropy ?self) beta epsilon lr max_step [] = Inr l"
    and m: "losses m = l" "base m = ?self"
    by (auto simp: PPOModel_init_def Let_def create_reward_encoder_def split: sum.splits)
  show "returns_holders (losses m) = []" "old_values (losses m) = []" "base m = ?self"
    using create_losses_Inr(3,4)[OF l] m by simp_all
next
  fix e
  assume "PPOModel_init LearningModel_init cc dc fd brain lr h_size epsilon beta max_step nz
     ur nl m_size seed None = Inl e"
  then show "e = IndexError"
    by (auto simp: PPOModel_init_def Let_def create_reward_encoder_def split: sum.splits
        dest: create_losses_no_names)
qed

theorem default_stream_names_empty_witness:
  "sample_init None = sample_init (Some []) \<and>
   returns_holders (losses (projr (sample_init None))) = [] \<and>
   old_values (losses (projr (sample_init None))) = [] \<and>
   value_heads (base (projr (sample_init None))) = []"
proof -
  let ?i = "PPOModel_init sample_LearningModel_init (\<lambda>self h_size num_layers. self)
       (\<lambda>self h_size num_layers. self) sample_feed sample_brain (1 / 10000) 128 (1 / 5)
       (1 / 1000) 5000000 False False 2 () 0 None"
  let ?self = "create_actor_critic (\<lambda>self h_size num_layers. self) (\<lambda>self h_size num_layers. self)
      sample_brain (sample_LearningModel_init () False False sample_brain 0 []) 128 2"
  have vh: "value_heads ?self = []"
    by (simp add: create_actor_critic_def sample_LearningModel_init_def Let_def)
  have "\<exists>l. create_losses ?self sample_feed (log_probs ?self) (old_log_probs ?self)
      (value_heads ?self) (entropy ?self) (1 / 1000) (1 / 5) (1 / 10000) 5000000 [] = Inr l"
    by (rule create_losses_succeeds) (simp_all add: vh)
  then have "\<exists>m. ?i = Inr m"
    by (auto simp: PPOModel_init_def Let_def create_reward_encoder_def)
  then have s: "?i = Inr (projr ?i)" by (metis sum.sel(2))
  note t = default_stream_names_empty[of sample_LearningModel_init "\<lambda>self h_size num_layers. self"
      "\<lambda>self h_size num_layers. self" sample_feed sample_brain "1 / 10000" 128 "1 / 5"
       "1 / 1000" 5000000 False False 2 "()" 0]
  from t have 1: "sample_init None = sample_init (Some [])"
    unfolding sample_init_def by blast
  from t s have 2: "returns_holders (losses (projr ?i)) = []" "old_values (losses (projr ?i)) = []"
    "base (projr ?i) = ?self"
    by simp_all
  show ?thesis using 1 2 vh unfolding sample_init_def by simp
qed

end
